theory Spec2Isabelle
  imports Main "HOL-Library.AList"
begin

section \<open>Common Python values\<close>

text \<open>
  Byte strings are lists of characters (a HOL character is one byte). A point in time is
  the number of microseconds on the UTC time line, and a time span is a number of
  microseconds, so \<open>datetime - timedelta\<close> and the comparisons of \<open>datetime\<close> objects are
  integer arithmetic. (Python's range limits of \<open>datetime\<close> and the mixing of naive and
  aware objects are outside this model.)
\<close>

type_synonym bytes = string
type_synonym datetime = int
type_synonym timedelta = int

text \<open>
  Exceptions are values. The message of an exception is kept as the constant part of the
  source's text, shortened; \<open>RevokedError\<close> carries the reason and the revocation date,
  \<open>CRLValidationIndeterminateError\<close> its list of failures.
\<close>

datatype exc =
    TypeError
  | LookupError
  | IndexError
  | AttributeError
  | NotImplementedError
  | ValueError
  | OverflowError
  | PathValidationError string
  | NotYetValidError
  | ExpiredError
  | InsufficientRevinfoError string
  | InvalidAttrCertificateError string
  | WeakAlgorithmError
  | RevokedError string datetime
  | CRLNoMatchesError
  | CRLValidationIndeterminateError "string list"
  | OtherException string

section \<open>ltv/poe.py: proof-of-existence claims\<close>

text \<open>\<open>@dataclass(frozen=True) class KnownPOE\<close>.\<close>

record KnownPOE =
  digest :: bytes
  poe_time :: datetime

text \<open>
  \<open>class POEManager\<close>. The attribute \<open>_poes\<close> is a Python \<open>dict\<close>: an association list
  with distinct keys in insertion order. The assignment \<open>d[k] = v\<close> replaces the value
  in place when the key exists and appends the pair otherwise, which is
  \<^const>\<open>AList.update\<close>.
\<close>

record POEManager =
  poes :: "(bytes \<times> KnownPOE) list"
  current_dt_override :: "datetime option"

definition POEManager_init :: "datetime option \<Rightarrow> POEManager" where
  "POEManager_init dt_override = \<lparr>poes = [], current_dt_override = dt_override\<rparr>"

text \<open>
  \<open>POEManager.register_known_poe\<close>: returns the value returned by the method and the
  manager after the call. The \<open>KeyError\<close> of the lookup is the \<open>None\<close> branch.
\<close>

definition register_known_poe :: "POEManager \<Rightarrow> KnownPOE \<Rightarrow> KnownPOE \<times> POEManager" where
  "register_known_poe self known_poe =
     (let dt = poe_time known_poe; dg = digest known_poe in
      case map_of (poes self) dg of
        Some cur_poe \<Rightarrow>
          if poe_time cur_poe \<le> dt then (cur_poe, self)
          else (known_poe, self\<lparr>poes := AList.update dg known_poe (poes self)\<rparr>)
      | None \<Rightarrow> (known_poe, self\<lparr>poes := AList.update dg known_poe (poes self)\<rparr>))"

text \<open>
  \<open>POEManager.register_by_digest\<close>: \<open>dt or self._current_dt_override or now\<close>, where
  \<open>now\<close> is the reading of the clock (\<open>datetime\<close> objects are always truthy).
\<close>

definition register_by_digest ::
  "datetime \<Rightarrow> POEManager \<Rightarrow> bytes \<Rightarrow> datetime option \<Rightarrow> KnownPOE \<times> POEManager" where
  "register_by_digest now self dg dt =
     (let dt' = (case dt of
                   Some t \<Rightarrow> t
                 | None \<Rightarrow> (case current_dt_override self of Some t \<Rightarrow> t | None \<Rightarrow> now))
      in register_known_poe self \<lparr>digest = dg, poe_time = dt'\<rparr>)"

text \<open>A sequence of \<open>register_known_poe\<close> calls on one manager, with the value each returns.\<close>

fun register_all :: "POEManager \<Rightarrow> KnownPOE list \<Rightarrow> KnownPOE list \<times> POEManager" where
  "register_all self [] = ([], self)"
| "register_all self (p # ps) =
     (case register_known_poe self p of
        (r, self') \<Rightarrow> (case register_all self' ps of (rs, self'') \<Rightarrow> (r # rs, self'')))"

text \<open>The time stored for a digest: \<open>self._poes[dg].poe_time\<close>, when the key is there.\<close>

definition stored_time :: "POEManager \<Rightarrow> bytes \<Rightarrow> datetime option" where
  "stored_time self dg = map_option poe_time (map_of (poes self) dg)"

text \<open>\<open>POEManager.__iter__\<close>: \<open>iter(self._poes.values())\<close>.\<close>

definition POEManager_iter :: "POEManager \<Rightarrow> KnownPOE list" where
  "POEManager_iter self = map snd (poes self)"

text \<open>
  \<open>POEManager.__ior__\<close>. The right operand is any Python object; one that is not a
  \<open>POEManager\<close> raises \<open>TypeError\<close>. The method body has no \<open>return\<close> statement, so the
  call evaluates to Python's \<open>None\<close>: the result is the pair of the returned value
  (\<open>None\<close>, or a manager) and the state of the \<open>self\<close> object after the loop.
\<close>

datatype py_object = Manager POEManager | OtherObject

definition ior_loop :: "POEManager \<Rightarrow> KnownPOE list \<Rightarrow> POEManager" where
  "ior_loop self ps = fold (\<lambda>poe s. snd (register_known_poe s poe)) ps self"

definition POEManager_ior ::
  "POEManager \<Rightarrow> py_object \<Rightarrow> exc + (POEManager option \<times> POEManager)" where
  "POEManager_ior self other =
     (case other of
        OtherObject \<Rightarrow> Inl TypeError
      | Manager om \<Rightarrow> Inr (None, ior_loop self (POEManager_iter om)))"

text \<open>
  The statement \<open>m |= other\<close> is \<open>m = m.__ior__(other)\<close>: the variable is bound to the
  value the method returns.
\<close>

definition ior_assign :: "POEManager \<Rightarrow> py_object \<Rightarrow> exc + POEManager option" where
  "ior_assign m other = map_sum id fst (POEManager_ior m other)"

text \<open>
  The keys of \<open>_poes\<close> are the digests of the values stored under them; every manager
  built by \<open>__init__\<close>, the register methods and \<open>__copy__\<close> is of this kind.
\<close>

definition poes_wf :: "POEManager \<Rightarrow> bool" where
  "poes_wf self = (distinct (map fst (poes self)) \<and> list_all (\<lambda>(k, v). digest v = k) (poes self))"


section \<open>validate.py: path validation\<close>

subsection \<open>\<open>_check_validity\<close>\<close>

text \<open>
  A \<open>datetime\<close> object holds a time from 0001-01-01T00:00:00 to
  9999-12-31T23:59:59.999999. Counted in microseconds from the first of these, the
  representable times are the integers from \<open>0\<close> to \<open>datetime_max\<close>
  (\<open>3652059\<close> days of \<open>86400000000\<close> microseconds, less one). Adding a \<open>timedelta\<close> to a
  \<open>datetime\<close>, or subtracting one from it, raises \<open>OverflowError\<close> when the result is
  not representable.
\<close>

definition datetime_max :: int where
  "datetime_max = 315537897599999999"

definition representable :: "int \<Rightarrow> bool" where
  "representable t = (0 \<le> t \<and> t \<le> datetime_max)"

definition datetime_add :: "datetime \<Rightarrow> timedelta \<Rightarrow> exc + datetime" where
  "datetime_add d td = (if representable (d + td) then Inr (d + td) else Inl OverflowError)"

definition datetime_sub :: "datetime \<Rightarrow> timedelta \<Rightarrow> exc + datetime" where
  "datetime_sub d td = (if representable (d - td) then Inr (d - td) else Inl OverflowError)"

text \<open>
  \<open>asn1crypto.x509.Validity\<close>: the two \<open>.native\<close> times, which asn1crypto decodes to
  timezone-aware \<open>datetime\<close> objects in UTC (a time of the year 0, which asn1crypto
  decodes to an object of a class of its own, is outside this model).
\<close>

record Validity =
  not_before :: datetime
  not_after :: datetime

text \<open>
  The validation moment is a \<open>datetime\<close> object given by the caller: timezone-aware, with
  its instant on the UTC time line, or naive. Ordering a naive \<open>datetime\<close> against an
  aware one raises \<open>TypeError\<close>.
\<close>

datatype py_datetime = Aware datetime | Naive datetime

text \<open>
  \<open>_check_validity\<close>. Each comparison first evaluates its right operand, the bound with
  the tolerance applied.
\<close>

definition check_validity :: "Validity \<Rightarrow> py_datetime \<Rightarrow> timedelta \<Rightarrow> exc + unit" where
  "check_validity validity moment tolerance =
     (case datetime_sub (not_before validity) tolerance of
        Inl e \<Rightarrow> Inl e
      | Inr lower \<Rightarrow>
          (case moment of
             Naive w \<Rightarrow> Inl TypeError
           | Aware m \<Rightarrow>
               if m < lower then Inl NotYetValidError
               else
                 (case datetime_add (not_after validity) tolerance of
                    Inl e \<Rightarrow> Inl e
                  | Inr upper \<Rightarrow> if m > upper then Inl ExpiredError else Inr ())))"

subsection \<open>\<open>_PathValidationState\<close>\<close>

text \<open>
  The counters and flags of the path state. The policy tree, the working key and name and
  the name-constraint trees are values of classes that are not part of these sources and
  are not read by the functions below; they are left out of the record.
  \<open>max_aa_path_length\<close> is declared \<open>int\<close>, but \<open>init_pkix_validation_state\<close> can store
  the anchor's \<open>None\<close> in it, hence the option.
\<close>

record PathValidationState =
  explicit_policy :: int
  inhibit_any_policy :: int
  policy_mapping :: int
  max_path_length :: int
  max_aa_path_length :: "int option"
  aa_controls_used :: bool

text \<open>
  \<open>PKIXValidationParams\<close> and the trust anchor's \<open>TrustQualifiers\<close>, as far as
  \<open>init_pkix_validation_state\<close> reads their policy set and flags.
\<close>

record PKIXValidationParams =
  user_initial_policy_set :: "string set"
  initial_policy_mapping_inhibit :: bool
  initial_explicit_policy :: bool
  initial_any_policy_inhibit :: bool

record TrustQualifiers =
  tq_max_path_length :: "int option"
  tq_max_aa_path_length :: "int option"
  standard_parameters :: "PKIXValidationParams option"

text \<open>
  \<open>_PathValidationState.init_pkix_validation_state\<close>. \<open>intersect_policy_sets\<close> and the
  default \<open>PKIXValidationParams()\<close> come from \<open>policy_decl.py\<close> and are parameters.
  The three flags are written as the source computes them: each operand of \<open>and\<close> is the
  caller's flag.
\<close>

definition init_pkix_validation_state ::
  "(string set \<Rightarrow> string set \<Rightarrow> string set) \<Rightarrow> PKIXValidationParams \<Rightarrow>
   int \<Rightarrow> TrustQualifiers \<Rightarrow> PKIXValidationParams option \<Rightarrow> PathValidationState \<times> string set" where
  "init_pkix_validation_state intersect_policy_sets default_params
      path_length trust_anchor_quals parameters =
     (let max_path_length' =
            (case tq_max_path_length trust_anchor_quals of Some n \<Rightarrow> n | None \<Rightarrow> path_length);
          max_aa_path_length' =
            (case tq_max_path_length trust_anchor_quals of
               Some n \<Rightarrow> tq_max_aa_path_length trust_anchor_quals
             | None \<Rightarrow> Some path_length);
          trust_anchor_params = standard_parameters trust_anchor_quals;
          (acceptable_policies, initial_any_policy_inhibit', initial_explicit_policy',
             initial_policy_mapping_inhibit') =
            (case (parameters, trust_anchor_params) of
               (Some ps, Some tps) \<Rightarrow>
                 (intersect_policy_sets (user_initial_policy_set ps) (user_initial_policy_set tps),
                  initial_any_policy_inhibit ps \<and> initial_any_policy_inhibit ps,
                  initial_explicit_policy ps \<and> initial_explicit_policy ps,
                  initial_policy_mapping_inhibit ps \<and> initial_policy_mapping_inhibit ps)
             | _ \<Rightarrow>
                 (let ps = (case parameters of
                              Some ps \<Rightarrow> ps
                            | None \<Rightarrow> (case trust_anchor_params of
                                          Some tps \<Rightarrow> tps
                                        | None \<Rightarrow> default_params))
                  in (user_initial_policy_set ps,
                      initial_any_policy_inhibit ps,
                      initial_explicit_policy ps,
                      initial_policy_mapping_inhibit ps)))
      in (\<lparr>explicit_policy = (if initial_explicit_policy' then 0 else path_length + 1),
           inhibit_any_policy = (if initial_any_policy_inhibit' then 0 else path_length + 1),
           policy_mapping = (if initial_policy_mapping_inhibit' then 0 else path_length + 1),
           max_path_length = max_path_length',
           max_aa_path_length = max_aa_path_length',
           aa_controls_used = False\<rparr>,
          acceptable_policies))"

subsection \<open>\<open>_check_aa_controls\<close>\<close>

text \<open>
  \<open>AAControls.read_extension_value(cert)\<close> is the extension value or \<open>None\<close>; of the
  value the function reads \<open>path_len_constraint\<close>. Comparing an \<open>int\<close> with a stored
  \<open>None\<close> raises \<open>TypeError\<close>.
\<close>

record AAControls =
  path_len_constraint :: "int option"

definition check_aa_controls ::
  "AAControls option \<Rightarrow> PathValidationState \<Rightarrow> int \<Rightarrow> exc + PathValidationState" where
  "check_aa_controls aa_controls state index =
     (case aa_controls of
        Some aac \<Rightarrow>
          if \<not> aa_controls_used state \<and> index > 1
          then Inl (PathValidationError
                 ''AA controls extension only present on part of the certificate chain: has AA controls while preceding certificates do not'')
          else
            (let state' = state\<lparr>aa_controls_used := True\<rparr> in
             case path_len_constraint aac of
               None \<Rightarrow> Inr state'
             | Some new_max_aa_path_length \<Rightarrow>
                 (case max_aa_path_length state' of
                    None \<Rightarrow> Inl TypeError
                  | Some cur \<Rightarrow>
                      if new_max_aa_path_length < cur
                      then Inr (state'\<lparr>max_aa_path_length := Some new_max_aa_path_length\<rparr>)
                      else Inr state'))
      | None \<Rightarrow>
          if aa_controls_used state
          then Inl (PathValidationError
                 ''AA controls extension only present on part of the certificate chain: has no AA controls'')
          else Inr state)"

subsection \<open>\<open>_check_ac_signature\<close>\<close>

text \<open>
  The two signature-algorithm declarations of an attribute certificate:
  \<open>attr_cert['signature_algorithm']\<close> on the envelope and
  \<open>attr_cert['ac_info']['signature']\<close> in the signed part. The type \<open>'a\<close> is the type
  of the encoded values; two declarations are equal exactly when their encodings are.
\<close>

record 'a AttributeCertificateV2 =
  signature_algorithm :: 'a
  ac_info_signature :: 'a

text \<open>What the call of \<open>validate_sig\<close> does.\<close>

datatype sig_outcome =
    SignatureValid
  | RaisesPSSParameterMismatch
  | RaisesInvalidSignature
  | RaisesOtherSigError exc

text \<open>
  \<open>_check_ac_signature\<close>. The decoder \<open>.native\<close> and the property \<open>.hash_algo\<close> of
  asn1crypto are parameters, \<open>weak_hash_algos\<close> is the context's set, \<open>sig_result\<close> is
  what \<open>validate_sig\<close> does when it is called. The result is what the function raises
  or returns, and whether \<open>validate_sig\<close> was called.
\<close>

definition check_ac_signature ::
  "('a \<Rightarrow> 'n) \<Rightarrow> ('a \<Rightarrow> string) \<Rightarrow> string set \<Rightarrow> sig_outcome \<Rightarrow>
   'a AttributeCertificateV2 \<Rightarrow> (exc + unit) \<times> bool" where
  "check_ac_signature native hash_algo_of weak_hash_algos sig_result attr_cert =
     (let sd_algo = signature_algorithm attr_cert;
          embedded_sd_algo = ac_info_signature attr_cert
      in if native sd_algo \<noteq> native embedded_sd_algo
         then (Inl (InvalidAttrCertificateError
                 ''Signature algorithm declaration in signed portion of AC does not match the signature algorithm declaration on the envelope.''),
               False)
         else if hash_algo_of (signature_algorithm attr_cert) \<in> weak_hash_algos
         then (Inl WeakAlgorithmError, False)
         else
           (case sig_result of
              SignatureValid \<Rightarrow> (Inr (), True)
            | RaisesPSSParameterMismatch \<Rightarrow>
                (Inl (InvalidAttrCertificateError
                   ''The signature parameters for the attribute certificate do not match the constraints on the public key.''),
                 True)
            | RaisesInvalidSignature \<Rightarrow>
                (Inl (InvalidAttrCertificateError
                   ''The attribute certificate could not be validated because the signature could not be verified.''),
                 True)
            | RaisesOtherSigError e \<Rightarrow> (Inl e, True)))"

text \<open>
  An \<open>AlgorithmIdentifier\<close> as asn1crypto (a library outside this repository) reads it:
  the algorithm's object identifier and the optional parameters, here absent or the ASN.1
  \<open>NULL\<close>. DER is canonical, so two such values have the same encoding exactly when they
  are equal. The \<open>.native\<close> value of the parameters is Python's \<open>None\<close> both for an
  absent field and for \<open>NULL\<close>.
\<close>

datatype algorithm_parameters = ParametersAbsent | ParametersNull

record AlgorithmIdentifier =
  algorithm :: "nat list"
  parameters :: algorithm_parameters

definition SignedDigestAlgorithm_native :: "AlgorithmIdentifier \<Rightarrow> nat list \<times> unit option" where
  "SignedDigestAlgorithm_native a =
     (algorithm a, (case parameters a of ParametersAbsent \<Rightarrow> None | ParametersNull \<Rightarrow> None))"

subsection \<open>\<open>_check_revocation\<close>\<close>

text \<open>
  Modelled from the spec: \<open>policy_decl.RevocationCheckingRule\<close> is not among the
  sources. The spec (4.6) gives every rule the six booleans and a named mode; the
  comparisons \<open>rev_rule == RevocationCheckingRule.X\<close> of the source read the mode.
\<close>

datatype RevocationCheckingRule =
    NO_CHECK
  | CHECK_IF_DECLARED
  | CRL_REQUIRED
  | OCSP_REQUIRED
  | CRL_OR_OCSP_REQUIRED
  | CRL_AND_OCSP_REQUIRED

record rev_rule =
  rule :: RevocationCheckingRule
  ocsp_relevant :: bool
  ocsp_mandatory :: bool
  crl_relevant :: bool
  crl_mandatory :: bool
  tolerant :: bool
  strict :: bool

text \<open>
  What a call of \<open>verify_ocsp_response\<close> or of \<open>verify_crl\<close> does: it returns, or raises
  the indeterminate error with its failure messages, the no-matches error, the fetch
  error, or any other exception (which \<open>_check_revocation\<close> does not catch).
\<close>

datatype revinfo_outcome =
    ReturnsNormally
  | RaisesIndeterminate "string list"
  | RaisesNoMatches
  | RaisesFetchError string
  | RaisesOther exc

text \<open>
  An element of the local list \<open>failures\<close>: a message (\<open>failure[0]\<close>), or the exception
  object that \<open>failures.append(e)\<close> stores.
\<close>

datatype failure_item = Message string | ExceptionObject string

fun is_Message :: "failure_item \<Rightarrow> bool" where
  "is_Message (Message m) = True"
| "is_Message (ExceptionObject e) = False"

text \<open>The local variables of \<open>_check_revocation\<close>, and the soft failures reported so far.\<close>

record revocation_locals =
  ocsp_status_good :: bool
  revocation_check_failed :: bool
  ocsp_matched :: bool
  crl_matched :: bool
  soft_fail :: bool
  check_failures :: "failure_item list"
  crl_status_good :: bool
  soft_fail_reports :: "string list"

text \<open>The \<open>try\<close> statement around \<open>verify_ocsp_response\<close>.\<close>

definition ocsp_try :: "rev_rule \<Rightarrow> revinfo_outcome \<Rightarrow> revocation_locals \<Rightarrow> exc + revocation_locals" where
  "ocsp_try rev_rule res l =
     (case res of
        ReturnsNormally \<Rightarrow> Inr (l\<lparr>ocsp_status_good := True, ocsp_matched := True\<rparr>)
      | RaisesIndeterminate fs \<Rightarrow>
          Inr (l\<lparr>check_failures := check_failures l @ map Message fs,
                 revocation_check_failed := True, ocsp_matched := True\<rparr>)
      | RaisesNoMatches \<Rightarrow> Inr l
      | RaisesFetchError e \<Rightarrow>
          if tolerant rev_rule
          then Inr (l\<lparr>soft_fail := True, soft_fail_reports := soft_fail_reports l @ [e]\<rparr>)
          else Inr (l\<lparr>check_failures := check_failures l @ [ExceptionObject e],
                      revocation_check_failed := True\<rparr>)
      | RaisesOther e \<Rightarrow> Inl e)"

text \<open>The \<open>try\<close> statement around \<open>verify_crl\<close>.\<close>

definition crl_try :: "rev_rule \<Rightarrow> revinfo_outcome \<Rightarrow> revocation_locals \<Rightarrow> exc + revocation_locals" where
  "crl_try rev_rule res l =
     (case res of
        ReturnsNormally \<Rightarrow>
          Inr (l\<lparr>revocation_check_failed := False, crl_status_good := True, crl_matched := True\<rparr>)
      | RaisesIndeterminate fs \<Rightarrow>
          Inr (l\<lparr>check_failures := check_failures l @ map Message fs,
                 revocation_check_failed := True, crl_matched := True\<rparr>)
      | RaisesNoMatches \<Rightarrow> Inr l
      | RaisesFetchError e \<Rightarrow>
          if tolerant rev_rule
          then Inr (l\<lparr>soft_fail := True, soft_fail_reports := soft_fail_reports l @ [e]\<rparr>)
          else Inr (l\<lparr>check_failures := check_failures l @ [ExceptionObject e],
                      revocation_check_failed := True\<rparr>)
      | RaisesOther e \<Rightarrow> Inl e)"

text \<open>
  A run of \<open>_check_revocation\<close>: whether the OCSP oracle and \<open>verify_crl\<close> were called,
  the value of the local \<open>status_good\<close> once it is assigned, the soft failures reported to
  the context, and what the function raises or returns.
\<close>

record revocation_run =
  ocsp_invoked :: bool
  crl_invoked :: bool
  status_good :: "bool option"
  reported :: "string list"
  outcome :: "exc + unit"

text \<open>
  The end of \<open>_check_revocation\<close>, after the mandatory-CRL test. \<open>'; '.join(failures)\<close>
  raises \<open>TypeError\<close> when the list holds an exception object.
\<close>

definition revocation_verdict ::
  "bool \<Rightarrow> rev_rule \<Rightarrow> bool \<Rightarrow> revocation_locals \<Rightarrow> exc + unit" where
  "revocation_verdict revinfo_declared rev_rule status_good' l =
     (let expected_revinfo =
            (strict rev_rule \<or> (revinfo_declared \<and> rule rev_rule = CHECK_IF_DECLARED));
          matched = (crl_matched l \<or> ocsp_matched l);
          expected_revinfo_not_found = (\<not> matched \<and> expected_revinfo)
      in if \<not> soft_fail l
         then (if \<not> status_good' \<and> matched \<and> revocation_check_failed l
               then (if list_all is_Message (check_failures l)
                     then Inl (InsufficientRevinfoError ''revocation checks failed'')
                     else Inl TypeError)
               else if expected_revinfo_not_found
               then Inl (InsufficientRevinfoError ''no revocation information could be found'')
               else Inr ())
         else Inr ())"

text \<open>
  \<open>_check_revocation\<close>. \<open>cert_has_crl\<close> and \<open>cert_has_ocsp\<close> are the pair that
  \<open>get_declared_revinfo(cert)\<close> returns, \<open>rev_rule\<close> is the rule chosen for the
  certificate's position, \<open>ocsp_result\<close> and \<open>crl_result\<close> are what the two checks do
  when they are called.
\<close>

definition check_revocation ::
  "bool \<Rightarrow> bool \<Rightarrow> rev_rule \<Rightarrow> revinfo_outcome \<Rightarrow> revinfo_outcome \<Rightarrow> revocation_run" where
  "check_revocation cert_has_crl cert_has_ocsp rev_rule ocsp_result crl_result =
     (let l0 = \<lparr>ocsp_status_good = False, revocation_check_failed = False,
                ocsp_matched = False, crl_matched = False, soft_fail = False,
                check_failures = [], crl_status_good = False, soft_fail_reports = []\<rparr>;
          revinfo_declared = (cert_has_crl \<or> cert_has_ocsp);
          call_ocsp = (ocsp_relevant rev_rule \<and> cert_has_ocsp)
      in case (if call_ocsp then ocsp_try rev_rule ocsp_result l0 else Inr l0) of
           Inl e \<Rightarrow>
             \<lparr>ocsp_invoked = call_ocsp, crl_invoked = False, status_good = None,
              reported = [], outcome = Inl e\<rparr>
         | Inr l1 \<Rightarrow>
             if \<not> ocsp_status_good l1 \<and> ocsp_mandatory rev_rule
             then \<lparr>ocsp_invoked = call_ocsp, crl_invoked = False, status_good = None,
                   reported = soft_fail_reports l1,
                   outcome = Inl (PathValidationError ''the mandatory OCSP check(s) failed'')\<rparr>
             else
               (let status_good' =
                      (ocsp_status_good l1 \<and> rule rev_rule \<noteq> CRL_AND_OCSP_REQUIRED);
                    crl_required_by_policy =
                      (crl_mandatory rev_rule \<or>
                       (\<not> status_good' \<and> rule rev_rule = CRL_OR_OCSP_REQUIRED));
                    crl_fetchable = (crl_relevant rev_rule \<and> cert_has_crl);
                    call_crl = (crl_required_by_policy \<or> (crl_fetchable \<and> \<not> status_good'))
                in case (if call_crl then crl_try rev_rule crl_result l1 else Inr l1) of
                     Inl e \<Rightarrow>
                       \<lparr>ocsp_invoked = call_ocsp, crl_invoked = call_crl,
                        status_good = Some status_good',
                        reported = soft_fail_reports l1, outcome = Inl e\<rparr>
                   | Inr l2 \<Rightarrow>
                       \<lparr>ocsp_invoked = call_ocsp, crl_invoked = call_crl,
                        status_good = Some status_good',
                        reported = soft_fail_reports l2,
                        outcome =
                          (if \<not> crl_status_good l2 \<and> crl_mandatory rev_rule
                           then Inl (InsufficientRevinfoError ''the mandatory CRL check(s) failed'')
                           else revocation_verdict revinfo_declared rev_rule status_good' l2)\<rparr>))"

section \<open>revinfo/validate_crl.py: CRL validation\<close>

subsection \<open>Names, distribution points and CRLs\<close>

text \<open>
  An \<open>x509.Name\<close> is its sequence of relative distinguished names (\<open>name.chosen\<close>), each a
  list of attribute type and value pairs. A \<open>GeneralName\<close> is a directory name or a name
  of another kind, whose \<open>chosen\<close> value is not an \<open>x509.Name\<close>.

  The operators \<open>==\<close> and \<open>!=\<close> on \<open>x509.Name\<close> and on \<open>GeneralName\<close> objects are
  asn1crypto's: they compare prepared forms of the attribute values (case is folded,
  spaces are collapsed), not the encodings. The functions below take these comparisons
  as parameters, \<open>name_eq\<close> and \<open>general_name_eq\<close>; \<open>x != y\<close> is the negation of
  \<open>x == y\<close>, and \<open>x in xs\<close> holds when \<open>x == y\<close> for an element \<open>y\<close> of \<open>xs\<close>.
  (asn1crypto refuses to compare general names of a few kinds and raises \<open>ValueError\<close>,
  which is outside this model.)
\<close>

type_synonym rdn = "(string \<times> string) list"
type_synonym name = "rdn list"

datatype general_name = DirectoryName name | OtherGeneralName string string

datatype distribution_point_name =
    FullName "general_name list"
  | NameRelativeToCRLIssuer rdn

record IssuingDistributionPoint =
  idp_distribution_point :: "distribution_point_name option"
  only_contains_user_certs :: bool
  only_contains_ca_certs :: bool
  only_some_reasons :: "string set option"
  indirect_crl :: bool
  only_contains_attribute_certs :: bool

text \<open>A \<open>DistributionPoint\<close> of a certificate; an absent \<open>crl_issuer\<close> is the empty list.\<close>

record DistributionPoint =
  dp_distribution_point :: "distribution_point_name option"
  dp_crl_issuer :: "general_name list"

text \<open>An entry of \<open>revoked_certificates\<close>, with the properties \<open>_find_cert_in_list\<close> reads.\<close>

record RevokedCertificate =
  user_certificate :: int
  revocation_date :: datetime
  crl_reason_value :: "string option"
  issuer_name :: "name option"
  critical_extensions :: "string set"

record CertificateList =
  issuer :: name
  issuing_distribution_point_value :: "IssuingDistributionPoint option"
  authority_key_identifier :: "bytes option"
  revoked_certificates :: "RevokedCertificate list"

text \<open>
  \<open>_CRLErrs\<close>. An element of \<open>failures\<close> is a tuple of a message and the CRL it is
  about; the model keeps the message.
\<close>

record CRLErrs =
  failures :: "string list"
  issuer_failures :: nat

text \<open>
  A Python value in a place typed \<open>x509.Name\<close>: a name, \<open>None\<close>, or a value of another
  type.
\<close>

datatype name_value = NameValue name | NoneValue | NonNameValue string

text \<open>
  \<open>SequenceOf.append\<close>, as \<open>list.append\<close>: the sequence after the call, and the value the
  call returns, which is \<open>None\<close>.
\<close>

definition SequenceOf_append :: "'a list \<Rightarrow> 'a \<Rightarrow> 'a list \<times> name_value" where
  "SequenceOf_append xs x = (xs @ [x], NoneValue)"

text \<open>\<open>general_name.chosen\<close>.\<close>

fun chosen :: "general_name \<Rightarrow> name_value" where
  "chosen (DirectoryName n) = NameValue n"
| "chosen (OtherGeneralName kind v) = NonNameValue v"

subsection \<open>\<open>_get_crl_authority_name\<close>\<close>

text \<open>
  \<open>retrieve_by_key_identifier\<close> is the registry's lookup, giving the subject of the
  certificate found; \<open>None.subject\<close> raises \<open>AttributeError\<close>, and \<open>chosen[0]\<close> of an empty
  sequence raises \<open>IndexError\<close>. In the relative-name branch the source assigns the value
  of the call \<open>cert_issuer_name.copy().chosen.append(crl_idp_name.chosen)\<close>.
\<close>

definition get_crl_authority_name ::
  "CertificateList \<Rightarrow> name \<Rightarrow> (bytes \<Rightarrow> name option) \<Rightarrow> CRLErrs \<Rightarrow>
   (exc + bool \<times> name_value) \<times> CRLErrs" where
  "get_crl_authority_name certificate_list cert_issuer_name retrieve_by_key_identifier errs =
     (let crl_idp = issuing_distribution_point_value certificate_list;
          is_indirect = (case crl_idp of None \<Rightarrow> False | Some idp \<Rightarrow> indirect_crl idp)
      in case crl_idp of
           None \<Rightarrow> (Inr (is_indirect, NameValue (issuer certificate_list)), errs)
         | Some idp \<Rightarrow>
             if \<not> is_indirect
             then (Inr (is_indirect, NameValue (issuer certificate_list)), errs)
             else
               (case idp_distribution_point idp of
                  Some (FullName gns) \<Rightarrow>
                    (case gns of
                       [] \<Rightarrow> (Inl IndexError, errs)
                     | g # rest \<Rightarrow> (Inr (is_indirect, chosen g), errs))
                | Some (NameRelativeToCRLIssuer r) \<Rightarrow>
                    (Inr (is_indirect, snd (SequenceOf_append cert_issuer_name r)), errs)
                | None \<Rightarrow>
                    (case authority_key_identifier certificate_list of
                       Some (b # bs) \<Rightarrow>
                         (case retrieve_by_key_identifier (b # bs) of
                            Some subject \<Rightarrow> (Inr (is_indirect, NameValue subject), errs)
                          | None \<Rightarrow> (Inl AttributeError, errs))
                     | _ \<Rightarrow>
                         (Inl LookupError,
                          errs\<lparr>failures := failures errs @
                            [''CRL is marked as an indirect CRL, but provides no mechanism for locating the CRL issuer certificate'']\<rparr>))))"

subsection \<open>\<open>_match_dps_idp_names\<close>\<close>

text \<open>
  The lifting of a relative name in \<open>_match_dps_idp_names\<close>: the copy of the CRL issuer's
  subject is extended in place and then used itself.
\<close>

definition lift_relative_name :: "name \<Rightarrow> rdn \<Rightarrow> general_name" where
  "lift_relative_name subject r = DirectoryName (fst (SequenceOf_append subject r))"

definition idp_general_names_of :: "name \<Rightarrow> distribution_point_name option \<Rightarrow> general_name list" where
  "idp_general_names_of crl_issuer_subject idp_dp_name =
     (case idp_dp_name of
        None \<Rightarrow> []
      | Some (FullName gns) \<Rightarrow> gns
      | Some (NameRelativeToCRLIssuer r) \<Rightarrow> [lift_relative_name crl_issuer_subject r])"

text \<open>The loop over the certificate's distribution points: \<open>(has_dp_name, idp_dp_match)\<close>.\<close>

fun match_dp_loop ::
  "(general_name \<Rightarrow> general_name \<Rightarrow> bool) \<Rightarrow> name \<Rightarrow> general_name list \<Rightarrow>
   DistributionPoint list \<Rightarrow> bool \<Rightarrow> bool \<Rightarrow> bool \<times> bool" where
  "match_dp_loop general_name_eq subject idp_general_names [] has_dp_name idp_dp_match =
     (has_dp_name, idp_dp_match)"
| "match_dp_loop general_name_eq subject idp_general_names (dp # dps) has_dp_name idp_dp_match =
     (if idp_dp_match then (has_dp_name, idp_dp_match)
      else
        (case dp_distribution_point dp of
           Some (FullName gns) \<Rightarrow>
             match_dp_loop general_name_eq subject idp_general_names dps True
               (list_ex (\<lambda>g. list_ex (general_name_eq g) idp_general_names) gns)
         | Some (NameRelativeToCRLIssuer r) \<Rightarrow>
             match_dp_loop general_name_eq subject idp_general_names dps True
               (list_ex (general_name_eq (lift_relative_name subject r)) idp_general_names)
         | None \<Rightarrow>
             if dp_crl_issuer dp \<noteq> []
             then match_dp_loop general_name_eq subject idp_general_names dps True
                    (list_ex (\<lambda>n. list_ex (general_name_eq n) idp_general_names)
                       (dp_crl_issuer dp))
             else match_dp_loop general_name_eq subject idp_general_names dps
                    has_dp_name idp_dp_match))"

definition match_dps_idp_names ::
  "(general_name \<Rightarrow> general_name \<Rightarrow> bool) \<Rightarrow> IssuingDistributionPoint \<Rightarrow>
   DistributionPoint list option \<Rightarrow> name \<Rightarrow> name \<Rightarrow> bool" where
  "match_dps_idp_names general_name_eq crl_idp crl_dps crl_issuer_subject crl_authority_name =
     (let idp_dp_name = idp_distribution_point crl_idp;
          has_idp_name = (idp_dp_name \<noteq> None);
          idp_general_names = idp_general_names_of crl_issuer_subject idp_dp_name;
          (has_dp_name, idp_dp_match) =
            (case crl_dps of
               Some (dp # dps) \<Rightarrow>
                 match_dp_loop general_name_eq crl_issuer_subject idp_general_names
                   (dp # dps) False False
             | _ \<Rightarrow>
                 (True,
                  list_ex (general_name_eq (DirectoryName crl_authority_name)) idp_general_names))
      in idp_dp_match \<or> \<not> has_idp_name \<or> \<not> has_dp_name)"

subsection \<open>\<open>_find_cert_in_list\<close> and \<open>_check_cert_on_crl_and_delta\<close>\<close>






subsection \<open>\<open>_process_crl_completeness\<close> and \<open>verify_crl\<close>\<close>

text \<open>
  Modelled from the spec: the constant \<open>VALID_REVOCATION_REASONS\<close> of
  \<open>revinfo/constants.py\<close> is not among the sources; the spec (4.5, step 2d) lists the
  complete set of reasons.
\<close>

definition VALID_REVOCATION_REASONS :: "string set" where
  "VALID_REVOCATION_REASONS =
     {''key_compromise'', ''ca_compromise'', ''affiliation_changed'', ''superseded'',
      ''cessation_of_operation'', ''certificate_hold'', ''privilege_withdrawn'',
      ''aa_compromise''}"

text \<open>
  \<open>_process_crl_completeness\<close>: the exception it returns (or \<open>None\<close>), and \<open>errs\<close> after
  the call.
\<close>

definition process_crl_completeness :: "string set \<Rightarrow> nat \<Rightarrow> CRLErrs \<Rightarrow> exc option \<times> CRLErrs" where
  "process_crl_completeness checked_reasons total_crls errs =
     (let checked_reasons' = checked_reasons - {''unused''} in
      if checked_reasons' \<noteq> VALID_REVOCATION_REASONS
      then
        (if total_crls = issuer_failures errs then (Some CRLNoMatchesError, errs)
         else
           (let errs' =
                  (if failures errs = []
                   then errs\<lparr>failures := failures errs @
                          [''The available CRLs do not cover all revocation reasons'']\<rparr>
                   else errs)
            in (Some (CRLValidationIndeterminateError (failures errs')), errs')))
      else (None, errs))"

text \<open>
  What one call of \<open>_handle_single_crl\<close> does: the value it returns or the exception it
  raises, the messages it appends to \<open>errs.failures\<close>, and whether it counts an issuer
  failure. Every path through \<open>_handle_single_crl\<close> and the functions it calls executes
  \<open>errs.issuer_failures += 1\<close> at most once, and returns \<open>None\<close> right after it.
\<close>

record single_crl_outcome =
  returned :: "exc + string set option"
  logged :: "string list"
  issuer_failure :: bool

text \<open>The \<open>while\<close> loop of \<open>verify_crl\<close> over the complete CRLs, in order.\<close>

fun process_crls ::
  "single_crl_outcome list \<Rightarrow> string set \<Rightarrow> CRLErrs \<Rightarrow> exc + (string set \<times> CRLErrs)" where
  "process_crls [] checked_reasons errs = Inr (checked_reasons, errs)"
| "process_crls (oc # ocs) checked_reasons errs =
     (let errs' = errs\<lparr>failures := failures errs @ logged oc,
                       issuer_failures := issuer_failures errs + (if issuer_failure oc then 1 else 0)\<rparr>
      in case returned oc of
           Inr (Some interim_reasons) \<Rightarrow> process_crls ocs (checked_reasons \<union> interim_reasons) errs'
         | Inr None \<Rightarrow> process_crls ocs checked_reasons errs'
         | Inl e \<Rightarrow>
             if e = ValueError
             then process_crls ocs checked_reasons
                    (errs'\<lparr>failures := failures errs' @
                       [''Generic processing error while validating CRL.'']\<rparr>)
             else Inl e)"

text \<open>
  \<open>verify_crl\<close>. \<open>classified\<close> are the failures \<open>_classify_relevant_crls\<close> has logged,
  \<open>issuer_found\<close> says whether \<open>path.find_issuing_authority(cert)\<close> returns, \<open>outcomes\<close>
  is what \<open>_handle_single_crl\<close> does for each complete CRL in turn.
\<close>

definition verify_crl :: "string list \<Rightarrow> bool \<Rightarrow> single_crl_outcome list \<Rightarrow> exc + unit" where
  "verify_crl classified issuer_found outcomes =
     (let errs = \<lparr>failures = classified, issuer_failures = 0\<rparr> in
      if \<not> issuer_found then Inl CRLNoMatchesError
      else
        (let total_crls = length outcomes in
         case process_crls outcomes {} errs of
           Inl e \<Rightarrow> Inl e
         | Inr (checked_reasons, errs') \<Rightarrow>
             (case fst (process_crl_completeness checked_reasons total_crls errs') of
                Some e \<Rightarrow> Inl e
              | None \<Rightarrow> Inr ())))"

section \<open>Notions used to state the properties\<close>

text \<open>
  The OCSP check produced a good status: the oracle was called (OCSP is relevant for the
  rule and the certificate declares a responder) and returned normally. The oracle's
  exception propagates when it was called and raised something \<open>_check_revocation\<close> does
  not catch.
\<close>

definition ocsp_good :: "bool \<Rightarrow> rev_rule \<Rightarrow> revinfo_outcome \<Rightarrow> bool" where
  "ocsp_good cert_has_ocsp r ocsp_result =
     (ocsp_relevant r \<and> cert_has_ocsp \<and> ocsp_result = ReturnsNormally)"

definition ocsp_propagates :: "bool \<Rightarrow> rev_rule \<Rightarrow> revinfo_outcome \<Rightarrow> bool" where
  "ocsp_propagates cert_has_ocsp r ocsp_result =
     (ocsp_relevant r \<and> cert_has_ocsp \<and> (case ocsp_result of RaisesOther e \<Rightarrow> True | _ \<Rightarrow> False))"




text \<open>
  The interim reasons of a CRL that was processed successfully (none otherwise), and the
  failures one CRL adds to \<open>errs.failures\<close>: those its processing logged, and the generic
  message of \<open>verify_crl\<close> when the processing raised \<open>ValueError\<close>.
\<close>

definition interim_reasons_of :: "single_crl_outcome \<Rightarrow> string set" where
  "interim_reasons_of oc = (case returned oc of Inr (Some rs) \<Rightarrow> rs | _ \<Rightarrow> {})"

definition failures_of :: "single_crl_outcome \<Rightarrow> string list" where
  "failures_of oc =
     logged oc @ (if returned oc = Inl ValueError
                  then [''Generic processing error while validating CRL.''] else [])"

section \<open>Properties of the POE manager\<close>

lemma stored_time_register:
  "stored_time (snd (register_known_poe m p)) d =
     (if d = digest p
      then Some (case stored_time m d of None \<Rightarrow> poe_time p | Some t \<Rightarrow> min t (poe_time p))
      else stored_time m d)"
  by (auto simp: register_known_poe_def stored_time_def Let_def update_conv' min_def
           split: option.splits)

lemma returned_time_register:
  "poe_time (fst (register_known_poe m p)) =
     (case stored_time m (digest p) of None \<Rightarrow> poe_time p | Some t \<Rightarrow> min t (poe_time p))"
  by (auto simp: register_known_poe_def stored_time_def Let_def min_def split: option.splits)

lemma register_all_length: "length (fst (register_all m ps)) = length ps"
proof (induction ps arbitrary: m)
  case Nil
  then show ?case by simp
next
  case (Cons p qs)
  obtain r m1 where reg: "register_known_poe m p = (r, m1)" by (cases "register_known_poe m p")
  obtain rs m2 where rest: "register_all m1 qs = (rs, m2)" by (cases "register_all m1 qs")
  have "length rs = length qs" using Cons.IH[of m1] rest by simp
  then show ?case using reg rest by simp
qed

lemma register_all_stored:
  "ps \<noteq> [] \<Longrightarrow> \<forall>p\<in>set ps. digest p = d \<Longrightarrow>
   stored_time (snd (register_all m ps)) d =
     Some (Min (set (map poe_time ps) \<union> set_option (stored_time m d)))"
proof (induction ps arbitrary: m)
  case Nil
  then show ?case by simp
next
  case (Cons p qs)
  obtain r m1 where reg: "register_known_poe m p = (r, m1)" by (cases "register_known_poe m p")
  have m1: "m1 = snd (register_known_poe m p)" using reg by simp
  have dp: "digest p = d" using Cons.prems by simp
  have st1: "stored_time m1 d =
      Some (case stored_time m d of None \<Rightarrow> poe_time p | Some t \<Rightarrow> min t (poe_time p))"
    unfolding m1 by (simp add: stored_time_register dp)
  show ?case
  proof (cases "qs = []")
    case True
    then show ?thesis using st1 reg
      by (auto split: option.splits simp: min_def)
  next
    case False
    have "stored_time (snd (register_all m1 qs)) d =
      Some (Min (set (map poe_time qs) \<union> set_option (stored_time m1 d)))"
      using Cons.IH[OF False, of m1] Cons.prems by simp
    moreover have "snd (register_all m (p # qs)) = snd (register_all m1 qs)"
      using reg by (simp split: prod.splits)
    moreover have "Min (set (map poe_time qs) \<union> set_option (stored_time m1 d)) =
        Min (set (map poe_time (p # qs)) \<union> set_option (stored_time m d))"
      using False st1
      by (cases "stored_time m d") (auto simp: Min_insert2 min.assoc min.commute min.left_commute)
    ultimately show ?thesis by simp
  qed
qed

lemma register_all_returns:
  "\<forall>p\<in>set ps. digest p = d \<Longrightarrow> i < length ps \<Longrightarrow>
   poe_time (fst (register_all m ps) ! i) =
     Min (set (map poe_time (take (Suc i) ps)) \<union> set_option (stored_time m d))"
proof (induction ps arbitrary: m i)
  case Nil
  then show ?case by simp
next
  case (Cons p qs)
  obtain r m1 where reg: "register_known_poe m p = (r, m1)" by (cases "register_known_poe m p")
  obtain rs m2 where rest: "register_all m1 qs = (rs, m2)" by (cases "register_all m1 qs")
  have dp: "digest p = d" using Cons.prems by simp
  have r: "r = fst (register_known_poe m p)" and m1: "m1 = snd (register_known_poe m p)"
    using reg by simp_all
  have st1: "stored_time m1 d =
      Some (case stored_time m d of None \<Rightarrow> poe_time p | Some t \<Rightarrow> min t (poe_time p))"
    unfolding m1 by (simp add: stored_time_register dp)
  have all: "fst (register_all m (p # qs)) = r # rs" using reg rest by simp
  show ?case
  proof (cases i)
    case 0
    have "poe_time r = (case stored_time m d of None \<Rightarrow> poe_time p | Some t \<Rightarrow> min t (poe_time p))"
      unfolding r by (simp add: returned_time_register dp)
    then show ?thesis using 0 all by (auto split: option.splits simp: min_def)
  next
    case (Suc j)
    have j: "j < length qs" using Cons.prems Suc by simp
    have "poe_time (rs ! j) =
        Min (set (map poe_time (take (Suc j) qs)) \<union> set_option (stored_time m1 d))"
      using Cons.IH[of j m1] Cons.prems j rest by simp
    moreover have "qs \<noteq> []" using j by auto
    then have "Min (set (map poe_time (take (Suc j) qs)) \<union> set_option (stored_time m1 d)) =
        Min (set (map poe_time (take (Suc (Suc j)) (p # qs))) \<union> set_option (stored_time m d))"
      using st1
      by (cases "stored_time m d"; cases qs)
         (auto simp: Min_insert2 min.assoc min.commute min.left_commute)
    ultimately show ?thesis using Suc all by simp
  qed
qed

text \<open>
  Claim C6. After a non-empty sequence of \<open>register_known_poe\<close> calls for one digest \<open>d\<close>,
  the time stored for \<open>d\<close> is the minimum of all the times supplied (together with the
  time the manager already held for \<open>d\<close>, if any), and the \<open>i\<close>-th call returns a POE whose
  time is the minimum of the times known for \<open>d\<close> up to and including that call.
\<close>

theorem register_stores_minimum:
  assumes "ps \<noteq> []" and "\<forall>p\<in>set ps. digest p = d"
  shows "stored_time (snd (register_all m ps)) d =
           Some (Min (set (map poe_time ps) \<union> set_option (stored_time m d)))
         \<and> length (fst (register_all m ps)) = length ps
         \<and> (\<forall>i<length ps. poe_time (fst (register_all m ps) ! i) =
               Min (set (map poe_time (take (Suc i) ps)) \<union> set_option (stored_time m d)))"
  using assms register_all_stored[of ps d m] register_all_length[of m ps]
    register_all_returns[of ps d _ m]
  by blast

theorem register_stores_minimum_witness:
  "stored_time
     (snd (register_all (POEManager_init None)
        [\<lparr>digest = ''d'', poe_time = 5\<rparr>, \<lparr>digest = ''d'', poe_time = 3\<rparr>,
         \<lparr>digest = ''d'', poe_time = 7\<rparr>])) ''d'' = Some 3
   \<and> poe_time (fst (register_all (POEManager_init None)
        [\<lparr>digest = ''d'', poe_time = 5\<rparr>, \<lparr>digest = ''d'', poe_time = 3\<rparr>,
         \<lparr>digest = ''d'', poe_time = 7\<rparr>]) ! 2) = 3"
proof -
  let ?ps = "[\<lparr>digest = ''d'', poe_time = 5\<rparr>, \<lparr>digest = ''d'', poe_time = 3\<rparr>,
         \<lparr>digest = ''d'', poe_time = 7\<rparr>]"
  have ne: "?ps \<noteq> []" by simp
  have dg: "\<forall>p\<in>set ?ps. digest p = ''d''" by simp
  have st: "stored_time (POEManager_init None) ''d'' = None"
    by (simp add: stored_time_def POEManager_init_def)
  note inst = register_stores_minimum[OF ne dg, of "POEManager_init None"]
  have a: "stored_time (snd (register_all (POEManager_init None) ?ps)) ''d'' = Some 3"
    using inst st by simp
  have "poe_time (fst (register_all (POEManager_init None) ?ps) ! 2) =
      Min (set (map poe_time (take (Suc 2) ?ps)) \<union> set_option (stored_time (POEManager_init None) ''d''))"
    using inst by simp
  then have b: "poe_time (fst (register_all (POEManager_init None) ?ps) ! 2) = 3"
    using st by simp
  show ?thesis using a b by simp
qed

lemma register_known_poe_present:
  "map_of (poes m) (digest p) = Some p \<Longrightarrow> register_known_poe m p = (p, m)"
  by (simp add: register_known_poe_def)

lemma ior_loop_unchanged:
  "\<forall>p\<in>set ps. map_of (poes m) (digest p) = Some p \<Longrightarrow> ior_loop m ps = m"
  unfolding ior_loop_def
  by (induction ps) (simp_all add: register_known_poe_present)

lemma poes_wf_lookup:
  assumes "poes_wf m" and "p \<in> set (POEManager_iter m)"
  shows "map_of (poes m) (digest p) = Some p"
proof -
  obtain k where kp: "(k, p) \<in> set (poes m)"
    using assms(2) by (auto simp: POEManager_iter_def)
  have "digest p = k"
    using assms(1) kp by (auto simp: poes_wf_def list_all_iff)
  moreover have "map_of (poes m) k = Some p"
    using assms(1) kp by (simp add: poes_wf_def)
  ultimately show ?thesis by simp
qed

text \<open>
  The loop of \<open>__ior__\<close> leaves the object unchanged when a manager is merged with
  itself: what is lost in \<open>m |= m\<close> is only the binding of the variable.
\<close>

lemma ior_self_object_unchanged:
  "poes_wf m \<Longrightarrow> POEManager_ior m (Manager m) = Inr (None, m)"
  by (simp add: POEManager_ior_def ior_loop_unchanged poes_wf_lookup)

text \<open>
  Claim C5. The claim says that after \<open>m |= m\<close> the variable \<open>m\<close> refers to a manager
  holding the mapping it held before. In the code \<open>__ior__\<close> returns no value, so the
  variable is bound to \<open>None\<close>, for every manager.
\<close>

theorem ior_assign_self_is_None: "ior_assign m (Manager m) = Inr None"
  by (simp add: ior_assign_def POEManager_ior_def)

section \<open>Properties of path validation\<close>

text \<open>
  Claim C2 (as amended). Write \<open>lower\<close> for \<open>not_before - tolerance\<close> and \<open>upper\<close> for
  \<open>not_after + tolerance\<close>. For a timezone-aware moment, \<open>_check_validity\<close> raises
  \<open>OverflowError\<close> exactly when \<open>lower\<close> is not a representable \<open>datetime\<close>, or the moment
  is not before \<open>lower\<close> and \<open>upper\<close> is not representable. Otherwise it tests the lower
  bound first: it raises \<open>NotYetValidError\<close> exactly when \<open>lower\<close> is representable and the
  moment is before it; it raises \<open>ExpiredError\<close> exactly when both bounds are
  representable, the moment is not before \<open>lower\<close> and is after \<open>upper\<close>; and it succeeds
  exactly when both bounds are representable and the moment lies in the closed window
  between them. Whenever both bounds are representable and the window is not empty, the
  check succeeds at both of its ends. For a naive moment the comparison with the lower
  bound raises \<open>TypeError\<close>, once that bound has been computed.
\<close>

theorem check_validity_window:
  "(check_validity v (Aware m) tol = Inl OverflowError \<longleftrightarrow>
        \<not> representable (not_before v - tol)
        \<or> (not_before v - tol \<le> m \<and> \<not> representable (not_after v + tol)))
   \<and> (check_validity v (Aware m) tol = Inl NotYetValidError \<longleftrightarrow>
        representable (not_before v - tol) \<and> m < not_before v - tol)
   \<and> (check_validity v (Aware m) tol = Inl ExpiredError \<longleftrightarrow>
        representable (not_before v - tol) \<and> representable (not_after v + tol)
        \<and> not_before v - tol \<le> m \<and> not_after v + tol < m)
   \<and> (check_validity v (Aware m) tol = Inr () \<longleftrightarrow>
        representable (not_before v - tol) \<and> representable (not_after v + tol)
        \<and> not_before v - tol \<le> m \<and> m \<le> not_after v + tol)
   \<and> (representable (not_before v - tol) \<and> representable (not_after v + tol)
        \<and> not_before v - tol \<le> not_after v + tol \<longrightarrow>
        check_validity v (Aware (not_before v - tol)) tol = Inr ()
        \<and> check_validity v (Aware (not_after v + tol)) tol = Inr ())
   \<and> check_validity v (Naive w) tol =
        (if representable (not_before v - tol) then Inl TypeError else Inl OverflowError)"
  by (auto simp: check_validity_def datetime_add_def datetime_sub_def)

theorem check_validity_window_witness:
  "check_validity \<lparr>not_before = 10, not_after = 20\<rparr> (Aware (10 - 2)) 2 = Inr ()
   \<and> check_validity \<lparr>not_before = 10, not_after = 20\<rparr> (Aware (20 + 2)) 2 = Inr ()
   \<and> check_validity \<lparr>not_before = 10, not_after = 20\<rparr> (Aware 7) 2 = Inl NotYetValidError
   \<and> check_validity \<lparr>not_before = 10, not_after = 20\<rparr> (Aware 23) 2 = Inl ExpiredError
   \<and> check_validity \<lparr>not_before = 2000000, not_after = 315537897599000000\<rparr>
        (Aware 5000000) 1000000 = Inl OverflowError"
proof -
  have r: "representable 8" "representable 22" "representable 1000000"
    "\<not> representable 315537897600000000"
    by (simp_all add: representable_def datetime_max_def)
  show ?thesis
    using r
      check_validity_window[of "\<lparr>not_before = 10, not_after = 20\<rparr>" 7 2]
      check_validity_window[of "\<lparr>not_before = 10, not_after = 20\<rparr>" 23 2]
      check_validity_window[of "\<lparr>not_before = 2000000, not_after = 315537897599000000\<rparr>"
        5000000 1000000]
    by simp
qed

text \<open>
  The claim as stated fails for a validity period that ends before it begins: the
  moment equals \<open>not_before - tolerance\<close>, and the check raises \<open>ExpiredError\<close>.
\<close>

theorem check_validity_empty_window_counterexample:
  "(10::int) = not_before \<lparr>not_before = 10, not_after = 0\<rparr> - 0
   \<and> check_validity \<lparr>not_before = 10, not_after = 0\<rparr> (Aware 10) 0 = Inl ExpiredError"
  by (simp add: check_validity_def datetime_add_def datetime_sub_def representable_def
      datetime_max_def)

text \<open>
  When the caller and the anchor both give parameters, the three counters depend on the
  caller's flags alone, while the policy sets of both are combined.
\<close>

lemma init_flags_are_callers:
  "standard_parameters tq = Some tps \<Longrightarrow>
   init_pkix_validation_state isect dflt n tq (Some ps) = (st, acc) \<Longrightarrow>
   explicit_policy st = (if initial_explicit_policy ps then 0 else n + 1)
   \<and> inhibit_any_policy st = (if initial_any_policy_inhibit ps then 0 else n + 1)
   \<and> policy_mapping st = (if initial_policy_mapping_inhibit ps then 0 else n + 1)
   \<and> acc = isect (user_initial_policy_set ps) (user_initial_policy_set tps)"
  by (auto simp: init_pkix_validation_state_def Let_def)

text \<open>
  Claim C1. The claim says that each effective flag is the conjunction of the caller's
  flag and the anchor's flag. With all three caller flags set and all three anchor flags
  clear, the conjunctions are false and the counters should start at \<open>path_length + 1 = 3\<close>;
  the code starts all three at \<open>0\<close>.
\<close>

theorem init_flags_ignore_anchor:
  "fst (init_pkix_validation_state (\<inter>)
      \<lparr>user_initial_policy_set = {''any_policy''}, initial_policy_mapping_inhibit = False,
       initial_explicit_policy = False, initial_any_policy_inhibit = False\<rparr>
      2
      \<lparr>tq_max_path_length = None, tq_max_aa_path_length = None,
       standard_parameters =
         Some \<lparr>user_initial_policy_set = {''any_policy''}, initial_policy_mapping_inhibit = False,
               initial_explicit_policy = False, initial_any_policy_inhibit = False\<rparr>\<rparr>
      (Some \<lparr>user_initial_policy_set = {''any_policy''}, initial_policy_mapping_inhibit = True,
             initial_explicit_policy = True, initial_any_policy_inhibit = True\<rparr>))
   = \<lparr>explicit_policy = 0, inhibit_any_policy = 0, policy_mapping = 0,
      max_path_length = 2, max_aa_path_length = Some 2, aa_controls_used = False\<rparr>"
  by (simp add: init_pkix_validation_state_def)

text \<open>
  Claim C9. \<open>_check_aa_controls\<close> is called for every certificate of the path, with its
  index and the path state. A certificate at an index above 1 that carries AA controls
  while \<open>aa_controls_used\<close> is not set fails the validation; a certificate without AA
  controls fails it once \<open>aa_controls_used\<close> is set; and when the call does not fail for
  the first reason, AA controls with a \<open>path_len_constraint\<close> below the current
  \<open>max_aa_path_length\<close> clamp it to that value. A successful call on a certificate with AA
  controls leaves \<open>aa_controls_used\<close> set.
\<close>

theorem check_aa_controls_rules:
  "(aa \<noteq> None \<and> \<not> aa_controls_used s \<and> index > 1 \<longrightarrow>
      (\<exists>msg. check_aa_controls aa s index = Inl (PathValidationError msg)))
   \<and> (aa = None \<and> aa_controls_used s \<longrightarrow>
      (\<exists>msg. check_aa_controls aa s index = Inl (PathValidationError msg)))
   \<and> (aa = Some aac \<and> path_len_constraint aac = Some k \<and> max_aa_path_length s = Some cur
        \<and> k < cur \<and> (aa_controls_used s \<or> index \<le> 1) \<longrightarrow>
      check_aa_controls aa s index =
        Inr (s\<lparr>aa_controls_used := True, max_aa_path_length := Some k\<rparr>))
   \<and> (aa \<noteq> None \<and> check_aa_controls aa s index = Inr s' \<longrightarrow> aa_controls_used s')"
  by (auto simp: check_aa_controls_def Let_def split: option.splits if_splits)

theorem check_aa_controls_rules_witness:
  "(\<exists>msg. check_aa_controls (Some \<lparr>path_len_constraint = Some 0\<rparr>)
       \<lparr>explicit_policy = 3, inhibit_any_policy = 3, policy_mapping = 3, max_path_length = 2,
        max_aa_path_length = Some 2, aa_controls_used = False\<rparr> 2 = Inl (PathValidationError msg))
   \<and> (\<exists>msg. check_aa_controls None
       \<lparr>explicit_policy = 3, inhibit_any_policy = 3, policy_mapping = 3, max_path_length = 2,
        max_aa_path_length = Some 2, aa_controls_used = True\<rparr> 2 = Inl (PathValidationError msg))
   \<and> check_aa_controls (Some \<lparr>path_len_constraint = Some 0\<rparr>)
       \<lparr>explicit_policy = 3, inhibit_any_policy = 3, policy_mapping = 3, max_path_length = 2,
        max_aa_path_length = Some 2, aa_controls_used = False\<rparr> 1
     = Inr \<lparr>explicit_policy = 3, inhibit_any_policy = 3, policy_mapping = 3, max_path_length = 2,
            max_aa_path_length = Some 0, aa_controls_used = True\<rparr>"
  using
    check_aa_controls_rules[of "Some \<lparr>path_len_constraint = Some 0\<rparr>"
      "\<lparr>explicit_policy = 3, inhibit_any_policy = 3, policy_mapping = 3, max_path_length = 2,
        max_aa_path_length = Some 2, aa_controls_used = False\<rparr>" 2]
    check_aa_controls_rules[of None
      "\<lparr>explicit_policy = 3, inhibit_any_policy = 3, policy_mapping = 3, max_path_length = 2,
        max_aa_path_length = Some 2, aa_controls_used = True\<rparr>" 2]
    check_aa_controls_rules[of "Some \<lparr>path_len_constraint = Some 0\<rparr>"
      "\<lparr>explicit_policy = 3, inhibit_any_policy = 3, policy_mapping = 3, max_path_length = 2,
        max_aa_path_length = Some 2, aa_controls_used = False\<rparr>" 1
      "\<lparr>path_len_constraint = Some 0\<rparr>" 0 2]
  by simp

text \<open>
  Claim C7 (as amended). The two declarations are compared by their decoded (\<open>.native\<close>)
  values: when these differ, \<open>_check_ac_signature\<close> raises
  \<open>InvalidAttrCertificateError\<close> and \<open>validate_sig\<close> is not called; declarations with
  equal encodings have equal decoded values; and when the decoded values are equal the
  function goes on to the weak-hash test and then to the signature verification.
\<close>

theorem ac_signature_declarations_compared_decoded:
  "(native (signature_algorithm ac) \<noteq> native (ac_info_signature ac) \<longrightarrow>
      (\<exists>msg. check_ac_signature native hash_algo_of weak sig_result ac =
         (Inl (InvalidAttrCertificateError msg), False)))
   \<and> (signature_algorithm ac = ac_info_signature ac \<longrightarrow>
        native (signature_algorithm ac) = native (ac_info_signature ac))
   \<and> (native (signature_algorithm ac) = native (ac_info_signature ac) \<longrightarrow>
        (hash_algo_of (signature_algorithm ac) \<in> weak \<longrightarrow>
           check_ac_signature native hash_algo_of weak sig_result ac = (Inl WeakAlgorithmError, False))
        \<and> (hash_algo_of (signature_algorithm ac) \<notin> weak \<longrightarrow>
           snd (check_ac_signature native hash_algo_of weak sig_result ac)
           \<and> (sig_result = SignatureValid \<longrightarrow>
                check_ac_signature native hash_algo_of weak sig_result ac = (Inr (), True))))"
  by (auto simp: check_ac_signature_def Let_def split: sig_outcome.splits)

theorem ac_signature_declarations_compared_decoded_witness:
  "(\<exists>msg. check_ac_signature SignedDigestAlgorithm_native (\<lambda>a. ''sha256'') {''md5'', ''sha1''}
       SignatureValid
       \<lparr>signature_algorithm = \<lparr>algorithm = [1, 2, 840, 113549, 1, 1, 11], parameters = ParametersNull\<rparr>,
        ac_info_signature = \<lparr>algorithm = [1, 2, 840, 10045, 4, 3, 2], parameters = ParametersAbsent\<rparr>\<rparr>
     = (Inl (InvalidAttrCertificateError msg), False))
   \<and> check_ac_signature SignedDigestAlgorithm_native (\<lambda>a. ''sha256'') {''md5'', ''sha1''}
       SignatureValid
       \<lparr>signature_algorithm = \<lparr>algorithm = [1, 2, 840, 113549, 1, 1, 11], parameters = ParametersNull\<rparr>,
        ac_info_signature = \<lparr>algorithm = [1, 2, 840, 113549, 1, 1, 11], parameters = ParametersNull\<rparr>\<rparr>
     = (Inr (), True)"
  using
    ac_signature_declarations_compared_decoded[of SignedDigestAlgorithm_native
      "\<lparr>signature_algorithm = \<lparr>algorithm = [1, 2, 840, 113549, 1, 1, 11], parameters = ParametersNull\<rparr>,
        ac_info_signature = \<lparr>algorithm = [1, 2, 840, 10045, 4, 3, 2], parameters = ParametersAbsent\<rparr>\<rparr>"
      "\<lambda>a. ''sha256''" "{''md5'', ''sha1''}" SignatureValid]
    ac_signature_declarations_compared_decoded[of SignedDigestAlgorithm_native
      "\<lparr>signature_algorithm = \<lparr>algorithm = [1, 2, 840, 113549, 1, 1, 11], parameters = ParametersNull\<rparr>,
        ac_info_signature = \<lparr>algorithm = [1, 2, 840, 113549, 1, 1, 11], parameters = ParametersNull\<rparr>\<rparr>"
      "\<lambda>a. ''sha256''" "{''md5'', ''sha1''}" SignatureValid]
  by (simp add: SignedDigestAlgorithm_native_def)

text \<open>
  The claim as stated fails: the envelope declares \<open>sha256WithRSAEncryption\<close> with
  \<open>NULL\<close> parameters and the signed part declares it with the parameters absent. The
  encodings differ, the decoded values are equal, and the function accepts the pair and
  verifies the signature.
\<close>

theorem ac_signature_null_parameters_counterexample:
  "\<lparr>algorithm = [1, 2, 840, 113549, 1, 1, 11], parameters = ParametersNull\<rparr>
     \<noteq> \<lparr>algorithm = [1, 2, 840, 113549, 1, 1, 11], parameters = ParametersAbsent\<rparr>
   \<and> check_ac_signature SignedDigestAlgorithm_native (\<lambda>a. ''sha256'') {''md5'', ''sha1''}
       SignatureValid
       \<lparr>signature_algorithm = \<lparr>algorithm = [1, 2, 840, 113549, 1, 1, 11], parameters = ParametersNull\<rparr>,
        ac_info_signature = \<lparr>algorithm = [1, 2, 840, 113549, 1, 1, 11], parameters = ParametersAbsent\<rparr>\<rparr>
     = (Inr (), True)"
  by (simp add: check_ac_signature_def SignedDigestAlgorithm_native_def)

text \<open>
  Claim C4 (as amended). Provided the OCSP oracle raised nothing that propagates and the
  mandatory-OCSP test did not fail the validation, \<open>status_good\<close> is true exactly when the
  OCSP check produced a good status and the rule is not \<open>CRL_AND_OCSP_REQUIRED\<close>, and
  \<open>verify_crl\<close> is called exactly when \<open>crl_mandatory\<close> holds, or the rule is
  \<open>CRL_OR_OCSP_REQUIRED\<close> and \<open>status_good\<close> is false, or CRL is relevant, the certificate
  declares CRL distribution points and \<open>status_good\<close> is false. When OCSP is mandatory and
  did not produce a good status, the function raises \<open>PathValidationError\<close> before
  \<open>status_good\<close> is assigned, and \<open>verify_crl\<close> is not called.
\<close>

theorem check_revocation_crl_invocation:
  "(\<not> ocsp_propagates cert_has_ocsp r ocsp_result
      \<and> \<not> (ocsp_mandatory r \<and> \<not> ocsp_good cert_has_ocsp r ocsp_result) \<longrightarrow>
      status_good (check_revocation cert_has_crl cert_has_ocsp r ocsp_result crl_result) =
        Some (ocsp_good cert_has_ocsp r ocsp_result \<and> rule r \<noteq> CRL_AND_OCSP_REQUIRED)
      \<and> crl_invoked (check_revocation cert_has_crl cert_has_ocsp r ocsp_result crl_result) =
        (crl_mandatory r
         \<or> (rule r = CRL_OR_OCSP_REQUIRED
             \<and> \<not> (ocsp_good cert_has_ocsp r ocsp_result \<and> rule r \<noteq> CRL_AND_OCSP_REQUIRED))
         \<or> (crl_relevant r \<and> cert_has_crl
             \<and> \<not> (ocsp_good cert_has_ocsp r ocsp_result \<and> rule r \<noteq> CRL_AND_OCSP_REQUIRED))))
   \<and> (\<not> ocsp_propagates cert_has_ocsp r ocsp_result
      \<and> ocsp_mandatory r \<and> \<not> ocsp_good cert_has_ocsp r ocsp_result \<longrightarrow>
      \<not> crl_invoked (check_revocation cert_has_crl cert_has_ocsp r ocsp_result crl_result)
      \<and> status_good (check_revocation cert_has_crl cert_has_ocsp r ocsp_result crl_result) = None
      \<and> (\<exists>msg. outcome (check_revocation cert_has_crl cert_has_ocsp r ocsp_result crl_result) =
            Inl (PathValidationError msg)))"
  by (cases ocsp_result)
     (auto simp: check_revocation_def ocsp_good_def ocsp_propagates_def ocsp_try_def Let_def
           split: sum.splits if_splits)

theorem check_revocation_crl_invocation_witness:
  "status_good (check_revocation True True
     \<lparr>rule = CHECK_IF_DECLARED, ocsp_relevant = True, ocsp_mandatory = False,
      crl_relevant = True, crl_mandatory = False, tolerant = False, strict = False\<rparr>
     ReturnsNormally ReturnsNormally) = Some True
   \<and> \<not> crl_invoked (check_revocation True True
     \<lparr>rule = CHECK_IF_DECLARED, ocsp_relevant = True, ocsp_mandatory = False,
      crl_relevant = True, crl_mandatory = False, tolerant = False, strict = False\<rparr>
     ReturnsNormally ReturnsNormally)
   \<and> crl_invoked (check_revocation True True
     \<lparr>rule = CHECK_IF_DECLARED, ocsp_relevant = True, ocsp_mandatory = False,
      crl_relevant = True, crl_mandatory = False, tolerant = False, strict = False\<rparr>
     RaisesNoMatches ReturnsNormally)
   \<and> \<not> crl_invoked (check_revocation True True
     \<lparr>rule = OCSP_REQUIRED, ocsp_relevant = True, ocsp_mandatory = True,
      crl_relevant = False, crl_mandatory = False, tolerant = False, strict = True\<rparr>
     RaisesNoMatches ReturnsNormally)"
  using
    check_revocation_crl_invocation[of True
      "\<lparr>rule = CHECK_IF_DECLARED, ocsp_relevant = True, ocsp_mandatory = False,
        crl_relevant = True, crl_mandatory = False, tolerant = False, strict = False\<rparr>"
      ReturnsNormally True ReturnsNormally]
    check_revocation_crl_invocation[of True
      "\<lparr>rule = CHECK_IF_DECLARED, ocsp_relevant = True, ocsp_mandatory = False,
        crl_relevant = True, crl_mandatory = False, tolerant = False, strict = False\<rparr>"
      RaisesNoMatches True ReturnsNormally]
    check_revocation_crl_invocation[of True
      "\<lparr>rule = OCSP_REQUIRED, ocsp_relevant = True, ocsp_mandatory = True,
        crl_relevant = False, crl_mandatory = False, tolerant = False, strict = True\<rparr>"
      RaisesNoMatches True ReturnsNormally]
  by (simp add: ocsp_good_def ocsp_propagates_def)

text \<open>
  The claim as stated fails under a rule for which both checks are mandatory, on a
  certificate that declares no OCSP responder: \<open>crl_mandatory\<close> holds, and the function
  raises at the mandatory-OCSP test without calling \<open>verify_crl\<close>.
\<close>

theorem mandatory_ocsp_gate_counterexample:
  "crl_mandatory \<lparr>rule = CRL_AND_OCSP_REQUIRED, ocsp_relevant = True, ocsp_mandatory = True,
      crl_relevant = True, crl_mandatory = True, tolerant = False, strict = True\<rparr>
   \<and> \<not> crl_invoked (check_revocation True False
     \<lparr>rule = CRL_AND_OCSP_REQUIRED, ocsp_relevant = True, ocsp_mandatory = True,
      crl_relevant = True, crl_mandatory = True, tolerant = False, strict = True\<rparr>
     RaisesNoMatches ReturnsNormally)
   \<and> outcome (check_revocation True False
     \<lparr>rule = CRL_AND_OCSP_REQUIRED, ocsp_relevant = True, ocsp_mandatory = True,
      crl_relevant = True, crl_mandatory = True, tolerant = False, strict = True\<rparr>
     RaisesNoMatches ReturnsNormally) =
       Inl (PathValidationError ''the mandatory OCSP check(s) failed'')"
  by (simp add: check_revocation_def Let_def)

section \<open>Properties of CRL validation\<close>

text \<open>
  Claim C8. The claim says that for an indirect CRL whose distribution-point name is
  relative, the CRL authority name is the certificate issuer's name extended with the
  relative distinguished name. In the code the name is the value of the \<open>append\<close> call,
  which is \<open>None\<close>, for every such CRL.
\<close>

theorem relative_name_authority_is_None:
  "get_crl_authority_name
     (cl\<lparr>issuing_distribution_point_value :=
          Some (idp\<lparr>indirect_crl := True,
                    idp_distribution_point := Some (NameRelativeToCRLIssuer r)\<rparr>)\<rparr>)
     cert_issuer_name registry errs
   = (Inr (True, NoneValue), errs)"
  by (simp add: get_crl_authority_name_def SequenceOf_append_def)

text \<open>
  \<open>_match_dps_idp_names\<close> lifts a relative name as the claim describes: it appends to the
  copy and then uses the copy.
\<close>

lemma match_dps_lifts_relative_name:
  "idp_general_names_of subject (Some (NameRelativeToCRLIssuer r)) = [DirectoryName (subject @ [r])]"
  by (simp add: idp_general_names_of_def lift_relative_name_def SequenceOf_append_def)











lemma process_crls_result:
  "\<forall>oc\<in>set ocs. \<forall>x. returned oc = Inl x \<longrightarrow> x = ValueError \<Longrightarrow>
   process_crls ocs checked errs =
     Inr (checked \<union> (\<Union>oc\<in>set ocs. interim_reasons_of oc),
          \<lparr>failures = failures errs @ concat (map failures_of ocs),
           issuer_failures = issuer_failures errs + length (filter issuer_failure ocs)\<rparr>)"
proof (induction ocs arbitrary: checked errs)
  case Nil
  then show ?case by simp
next
  case (Cons oc ocs)
  have rest: "\<forall>oc\<in>set ocs. \<forall>x. returned oc = Inl x \<longrightarrow> x = ValueError"
    using Cons.prems by simp
  show ?case
  proof (cases "returned oc")
    case (Inl x)
    then have x: "x = ValueError" using Cons.prems by simp
    show ?thesis
      using Inl x Cons.IH[OF rest]
      by (simp add: Let_def interim_reasons_of_def failures_of_def)
  next
    case (Inr v)
    show ?thesis
    proof (cases v)
      case None
      then show ?thesis
        using Inr Cons.IH[OF rest]
        by (simp add: Let_def interim_reasons_of_def failures_of_def)
    next
      case (Some rs)
      then show ?thesis
        using Inr Cons.IH[OF rest]
        by (simp add: Let_def interim_reasons_of_def failures_of_def Un_assoc)
    qed
  qed
qed

lemma all_counted: "(length (filter P xs) = length xs) = (\<forall>x\<in>set xs. P x)"
proof (induction xs)
  case Nil
  then show ?case by simp
next
  case (Cons x xs)
  have "length (filter P xs) \<noteq> Suc (length xs)"
    using length_filter_le[of P xs] by linarith
  then show ?case using Cons by auto
qed

text \<open>
  Claim C3. When the issuer of the certificate is found in the path and no CRL raises
  an exception that leaves the loop (a \<open>ValueError\<close> is caught and logged), \<open>verify_crl\<close>
  forms the union of the interim reasons of the CRLs processed successfully and removes
  \<open>unused\<close>; it returns exactly when the result is the full set of reasons; otherwise it
  raises \<open>CRLNoMatchesError\<close> when every CRL counted an issuer failure, and otherwise
  \<open>CRLValidationIndeterminateError\<close> with the failures accumulated (or the message that
  the CRLs do not cover all reasons, when there are none).
\<close>

theorem verify_crl_completeness:
  assumes "\<forall>oc\<in>set outcomes. \<forall>x. returned oc = Inl x \<longrightarrow> x = ValueError"
  shows "verify_crl classified True outcomes =
     (if (\<Union>oc\<in>set outcomes. interim_reasons_of oc) - {''unused''} = VALID_REVOCATION_REASONS
      then Inr ()
      else if (\<forall>oc\<in>set outcomes. issuer_failure oc) then Inl CRLNoMatchesError
      else Inl (CRLValidationIndeterminateError
             (if classified @ concat (map failures_of outcomes) = []
              then [''The available CRLs do not cover all revocation reasons'']
              else classified @ concat (map failures_of outcomes))))"
proof -
  have run: "process_crls outcomes {} \<lparr>failures = classified, issuer_failures = 0\<rparr> =
     Inr (\<Union>oc\<in>set outcomes. interim_reasons_of oc,
          \<lparr>failures = classified @ concat (map failures_of outcomes),
           issuer_failures = length (filter issuer_failure outcomes)\<rparr>)"
    using process_crls_result[OF assms, of "{}" "\<lparr>failures = classified, issuer_failures = 0\<rparr>"]
    by simp
  have cnt: "(length outcomes = length (filter issuer_failure outcomes)) =
      (\<forall>oc\<in>set outcomes. issuer_failure oc)"
    using all_counted[of issuer_failure outcomes] by auto
  show ?thesis
    unfolding verify_crl_def Let_def run
    by (simp add: process_crl_completeness_def Let_def cnt)
qed

theorem verify_crl_completeness_witness:
  "verify_crl [] True
     [\<lparr>returned = Inr (Some {''key_compromise'', ''ca_compromise'', ''affiliation_changed'',
                              ''superseded'', ''unused''}),
       logged = [], issuer_failure = False\<rparr>,
      \<lparr>returned = Inr (Some {''cessation_of_operation'', ''certificate_hold'',
                              ''privilege_withdrawn'', ''aa_compromise''}),
       logged = [], issuer_failure = False\<rparr>] = Inr ()
   \<and> verify_crl [] True
     [\<lparr>returned = Inr None, logged = [], issuer_failure = True\<rparr>,
      \<lparr>returned = Inr None, logged = [''x''], issuer_failure = True\<rparr>] = Inl CRLNoMatchesError
   \<and> verify_crl [] True
     [\<lparr>returned = Inr None, logged = [], issuer_failure = True\<rparr>,
      \<lparr>returned = Inr None, logged = [''CRL is not recent enough''], issuer_failure = False\<rparr>]
     = Inl (CRLValidationIndeterminateError [''CRL is not recent enough''])"
proof -
  have a: "verify_crl [] True
     [\<lparr>returned = Inr (Some {''key_compromise'', ''ca_compromise'', ''affiliation_changed'',
                              ''superseded'', ''unused''}),
       logged = [], issuer_failure = False\<rparr>,
      \<lparr>returned = Inr (Some {''cessation_of_operation'', ''certificate_hold'',
                              ''privilege_withdrawn'', ''aa_compromise''}),
       logged = [], issuer_failure = False\<rparr>] = Inr ()"
    by (subst verify_crl_completeness)
       (auto simp: interim_reasons_of_def VALID_REVOCATION_REASONS_def)
  have b: "verify_crl [] True
     [\<lparr>returned = Inr None, logged = [], issuer_failure = True\<rparr>,
      \<lparr>returned = Inr None, logged = [''x''], issuer_failure = True\<rparr>] = Inl CRLNoMatchesError"
    by (subst verify_crl_completeness)
       (auto simp: interim_reasons_of_def VALID_REVOCATION_REASONS_def)
  have c: "verify_crl [] True
     [\<lparr>returned = Inr None, logged = [], issuer_failure = True\<rparr>,
      \<lparr>returned = Inr None, logged = [''CRL is not recent enough''], issuer_failure = False\<rparr>]
     = Inl (CRLValidationIndeterminateError [''CRL is not recent enough''])"
    by (subst verify_crl_completeness)
       (auto simp: interim_reasons_of_def failures_of_def VALID_REVOCATION_REASONS_def)
  show ?thesis using a b c by simp
qed

end
